theory Spec2Isabelle
  imports Main "HOL-Library.Sublist"
begin

section \<open>The category navigation layout (RecipeCategory.svelte)\<close>

text \<open>
  The component under study is \<^verbatim>\<open>src/lib/layouts/RecipeCategory.svelte\<close>:
  \<^verbatim>\<open>
  const childrenNodes =
    $categories.find((c) => c.path === $page.url.pathname).children || [];
  export let title;
  ...
  {#each $categories as node}
    <div class="TOCLink" class:active={$page.url.pathname.includes(node.path)}>
      <Icon name={node.icon} />
      <a href={node.path}>{node.title}</a>
    </div>
  {/each}
  ...
  <h1>{title}</h1>
  <ul>
    {#each childrenNodes as node}
      <li><a href={node.path}>{node.title}</a></li>
    {/each}
  </ul>
  \<close>
  It reads two stores (the category tree and the current page), computes the list of
  child nodes once in its instance script, and renders two lists.
\<close>

subsection \<open>Data model\<close>

text \<open>
  JavaScript values that are falsy. A \<^verbatim>\<open>children\<close> property that is missing reads
  as \<^verbatim>\<open>undefined\<close>.
\<close>

datatype falsy = JS_undefined | JS_null | JS_false | JS_zero | JS_NaN | JS_empty_string

text \<open>
  The value of a property that is meant to hold an array: either the array, or one of
  the falsy values. Truthy values that are not arrays are outside the data model (the
  tree's \<^verbatim>\<open>children\<close> is a sequence of nodes wherever it is present).
\<close>

datatype 'a js_array_field = Falsy falsy | JS_Array "'a list"

text \<open>
  One entry of the navigation hierarchy: \<^verbatim>\<open>{path, title, icon, children}\<close>. The icon
  may be missing (\<open>None\<close> is \<^verbatim>\<open>undefined\<close>).
\<close>

datatype CategoryNode =
  CategoryNode (path: string) (title: string) (icon: "string option")
    (children: "CategoryNode js_array_field")

text \<open>
  The two stores the component subscribes to: \<^verbatim>\<open>$categories\<close> and
  \<^verbatim>\<open>$page.url.pathname\<close>. The component is typed over the record scheme, whose
  extension stands for whatever other state the application holds.
\<close>

record stores =
  categories :: "CategoryNode list"
  page_url_pathname :: string

text \<open>The only exception the component can raise.\<close>

datatype error = TypeError

text \<open>The render output: the sidebar links and the list items of the article.\<close>

record TOCLink =
  active :: bool
  icon_name :: "string option"
  href :: string
  label :: string

record li =
  li_href :: string
  li_label :: string

record render =
  seo_title :: string
  TOCList :: "TOCLink list"
  h1 :: string
  ul :: "li list"

subsection \<open>JavaScript built-ins used by the component\<close>

text \<open>
  \<^verbatim>\<open>String.prototype.includes(searchString)\<close>: the search string occurs at some
  index of the receiver. The receiver is scanned from index 0; at each index the
  search string is compared with what starts there.
\<close>

primrec String_includes :: "string \<Rightarrow> string \<Rightarrow> bool" where
  "String_includes [] searchString = (searchString = [])"
| "String_includes (c # s) searchString =
     (prefix searchString (c # s) \<or> String_includes s searchString)"

text \<open>
  \<^verbatim>\<open>Array.prototype.find\<close> is \<^const>\<open>List.find\<close>: the first element that
  satisfies the predicate, and \<open>None\<close> where JavaScript gives \<^verbatim>\<open>undefined\<close>.

  \<^verbatim>\<open>v || []\<close>: the array when \<^verbatim>\<open>v\<close> is truthy, the empty array otherwise.
\<close>

definition or_empty :: "'a js_array_field \<Rightarrow> 'a list" where
  "or_empty v = (case v of Falsy _ \<Rightarrow> [] | JS_Array xs \<Rightarrow> xs)"

subsection \<open>The component\<close>

text \<open>
  Line 7 of the instance script. Reading \<^verbatim>\<open>.children\<close> of \<^verbatim>\<open>undefined\<close>
  raises a TypeError, so a failed \<^verbatim>\<open>find\<close> is the error branch.
\<close>

definition childrenNodes :: "'a stores_scheme \<Rightarrow> error + CategoryNode list" where
  "childrenNodes s =
     (case find (\<lambda>c. path c = page_url_pathname s) (categories s) of
        None \<Rightarrow> Inl TypeError
      | Some c \<Rightarrow> Inr (or_empty (children c)))"

text \<open>The each-block over \<^verbatim>\<open>$categories\<close> (the sidebar).\<close>

definition TOCList_each :: "'a stores_scheme \<Rightarrow> TOCLink list" where
  "TOCList_each s =
     map (\<lambda>node. \<lparr>active = String_includes (page_url_pathname s) (path node),
                  icon_name = icon node,
                  href = path node,
                  label = title node\<rparr>)
       (categories s)"

text \<open>The each-block over \<^verbatim>\<open>childrenNodes\<close> (the list in the article).\<close>

definition ul_each :: "CategoryNode list \<Rightarrow> li list" where
  "ul_each nodes = map (\<lambda>node. \<lparr>li_href = path node, li_label = title node\<rparr>) nodes"

text \<open>
  The whole component, as a function of its prop \<^verbatim>\<open>title\<close> and of the stores. It
  returns the stores as it leaves them. The instance script runs first: when it
  raises, nothing is rendered.
\<close>

definition RecipeCategory ::
  "string \<Rightarrow> 'a stores_scheme \<Rightarrow> (error + render) \<times> 'a stores_scheme" where
  "RecipeCategory title_prop s =
     (case childrenNodes s of
        Inl e \<Rightarrow> (Inl e, s)
      | Inr nodes \<Rightarrow>
          (Inr \<lparr>seo_title = title_prop,
                TOCList = TOCList_each s,
                h1 = title_prop,
                ul = ul_each nodes\<rparr>, s))"

subsection \<open>The tree of the specification's scenarios\<close>

definition scenario_tree :: "CategoryNode list" where
  "scenario_tree =
     [CategoryNode ''/a'' ''A'' None
        (JS_Array [CategoryNode ''/a/x'' ''X'' None (Falsy JS_undefined)]),
      CategoryNode ''/b'' ''B'' None (JS_Array [])]"

text \<open>
  A tree with the edge cases the claims speak of: a node whose path is the empty
  string, two nodes with the same path, and nodes whose \<^verbatim>\<open>children\<close> is missing or
  \<^verbatim>\<open>null\<close>.
\<close>

definition edge_case_tree :: "CategoryNode list" where
  "edge_case_tree =
     [CategoryNode [] ''Home'' None (Falsy JS_undefined),
      CategoryNode ''/b'' ''B'' (Some ''book'') (Falsy JS_null),
      CategoryNode ''/b'' ''B2'' None (JS_Array [CategoryNode ''/b/y'' ''Y'' None (JS_Array [])])]"

section \<open>Properties\<close>

subsection \<open>Helper lemmas\<close>



lemma TOCList_each_length: "length (TOCList_each s) = length (categories s)"
  by (simp add: TOCList_each_def)

lemma TOCList_each_nth:
  "i < length (categories s) \<Longrightarrow>
   TOCList_each s ! i =
     \<lparr>active = String_includes (page_url_pathname s) (path (categories s ! i)),
      icon_name = icon (categories s ! i),
      href = path (categories s ! i),
      label = title (categories s ! i)\<rparr>"
  by (simp add: TOCList_each_def)

lemma RecipeCategory_Inr:
  "fst (RecipeCategory t s) = Inr r \<longleftrightarrow>
   (\<exists>nodes. childrenNodes s = Inr nodes \<and>
      r = \<lparr>seo_title = t, TOCList = TOCList_each s, h1 = t, ul = ul_each nodes\<rparr>)"
  by (auto simp: RecipeCategory_def split: sum.splits)

lemma RecipeCategory_Inl:
  "fst (RecipeCategory t s) = Inl e \<longleftrightarrow> childrenNodes s = Inl e"
  by (auto simp: RecipeCategory_def split: sum.splits)

lemma childrenNodes_first:
  assumes "i < length (categories s)"
    and "path (categories s ! i) = page_url_pathname s"
    and "\<forall>j<i. path (categories s ! j) \<noteq> page_url_pathname s"
  shows "childrenNodes s = Inr (or_empty (children (categories s ! i)))"
proof -
  have "find (\<lambda>c. path c = page_url_pathname s) (categories s) = Some (categories s ! i)"
    unfolding find_Some_iff using assms by blast
  then show ?thesis by (simp add: childrenNodes_def)
qed

lemma childrenNodes_no_match:
  "childrenNodes s = Inl TypeError \<longleftrightarrow>
   (\<forall>c \<in> set (categories s). path c \<noteq> page_url_pathname s)"
proof (cases "find (\<lambda>c. path c = page_url_pathname s) (categories s)")
  case None
  then have "\<forall>c \<in> set (categories s). path c \<noteq> page_url_pathname s"
    unfolding find_None_iff by blast
  with None show ?thesis by (simp add: childrenNodes_def)
next
  case (Some a)
  then have "a \<in> set (categories s) \<and> path a = page_url_pathname s"
    unfolding find_Some_iff by auto
  with Some show ?thesis by (auto simp: childrenNodes_def)
qed

lemma first_match_exists:
  assumes "\<exists>n \<in> set (categories s). path n = page_url_pathname s"
  shows "\<exists>i<length (categories s). path (categories s ! i) = page_url_pathname s \<and>
           (\<forall>j<i. path (categories s ! j) \<noteq> page_url_pathname s)"
proof -
  from assms obtain c where "find (\<lambda>c. path c = page_url_pathname s) (categories s) = Some c"
    by (cases "find (\<lambda>c. path c = page_url_pathname s) (categories s)")
       (auto simp: find_None_iff)
  then show ?thesis unfolding find_Some_iff by blast
qed


lemma ul_each_length: "length (ul_each nodes) = length nodes"
  by (simp add: ul_each_def)

lemma ul_each_nth:
  "k < length nodes \<Longrightarrow>
   ul_each nodes ! k = \<lparr>li_href = path (nodes ! k), li_label = title (nodes ! k)\<rparr>"
  by (simp add: ul_each_def)

subsection \<open>The claims\<close>

text \<open>
  Claim C1. The claim is that a current path equal to no top-level node's path gives an
  empty child list and no error. On the scenario tree and the path \<^verbatim>\<open>/unknown\<close>,
  \<^verbatim>\<open>find\<close> returns \<^verbatim>\<open>undefined\<close>, reading \<^verbatim>\<open>.children\<close> of it raises, and the
  \<^verbatim>\<open>|| []\<close> fallback is never reached: the component raises a TypeError.
  (\<open>childrenNodes_no_match\<close> above shows it does so at every path that matches no
  top-level node.)
\<close>

theorem scenario_unknown_raises:
  "fst (RecipeCategory t \<lparr>categories = scenario_tree, page_url_pathname = ''/unknown''\<rparr>)
     = Inl TypeError"
  by (simp add: RecipeCategory_def childrenNodes_def scenario_tree_def)



text \<open>
  Claim C3. When the current path equals the path of some top-level node, there is a
  first such node, the component renders, and its child list is the rendering, item by
  item, of that node's children (of no items when the node's \<^verbatim>\<open>children\<close> is falsy).
\<close>

theorem child_list_of_first_match:
  assumes "\<exists>n \<in> set (categories s). path n = page_url_pathname s"
  shows "\<exists>i<length (categories s).
           path (categories s ! i) = page_url_pathname s \<and>
           (\<forall>j<i. path (categories s ! j) \<noteq> page_url_pathname s) \<and>
           (\<exists>r. fst (RecipeCategory t s) = Inr r \<and>
                ul r = map (\<lambda>n. \<lparr>li_href = path n, li_label = title n\<rparr>)
                         (case children (categories s ! i) of
                            JS_Array nodes \<Rightarrow> nodes | Falsy _ \<Rightarrow> []))"
proof -
  from first_match_exists [OF assms] obtain i where i: "i < length (categories s)"
    "path (categories s ! i) = page_url_pathname s"
    "\<forall>j<i. path (categories s ! j) \<noteq> page_url_pathname s"
    by blast
  then have "childrenNodes s = Inr (or_empty (children (categories s ! i)))"
    by (rule childrenNodes_first)
  then have "fst (RecipeCategory t s) =
      Inr \<lparr>seo_title = t, TOCList = TOCList_each s, h1 = t,
           ul = ul_each (or_empty (children (categories s ! i)))\<rparr>"
    by (simp add: RecipeCategory_Inr)
  moreover have "ul_each (or_empty (children (categories s ! i))) =
      map (\<lambda>n. \<lparr>li_href = path n, li_label = title n\<rparr>)
        (case children (categories s ! i) of JS_Array nodes \<Rightarrow> nodes | Falsy _ \<Rightarrow> [])"
    by (simp add: ul_each_def or_empty_def split: js_array_field.splits)
  ultimately show ?thesis using i by auto
qed

theorem child_list_of_first_match_witness:
  "(\<exists>n \<in> set edge_case_tree. path n = ''/b'') \<and>
   (\<exists>i<length edge_case_tree.
      path (edge_case_tree ! i) = ''/b'' \<and>
      (\<forall>j<i. path (edge_case_tree ! j) \<noteq> ''/b'') \<and>
      (\<exists>r. fst (RecipeCategory ''T'' \<lparr>categories = edge_case_tree, page_url_pathname = ''/b''\<rparr>)
             = Inr r \<and>
           ul r = map (\<lambda>n. \<lparr>li_href = path n, li_label = title n\<rparr>)
                    (case children (edge_case_tree ! i) of
                       JS_Array nodes \<Rightarrow> nodes | Falsy _ \<Rightarrow> [])))"
proof -
  have h: "\<exists>n \<in> set (categories \<lparr>categories = edge_case_tree, page_url_pathname = ''/b''\<rparr>).
      path n = page_url_pathname \<lparr>categories = edge_case_tree, page_url_pathname = ''/b''\<rparr>"
    by (simp add: edge_case_tree_def)
  show ?thesis
    using h child_list_of_first_match [OF h, of "''T''"] by simp
qed

text \<open>
  Claim C4. Order is preserved: item \<open>k\<close> of the sidebar shows node \<open>k\<close> of the
  top-level sequence, item \<open>k\<close> of the child list shows node \<open>k\<close> of the nodes it is
  rendered from, and in every render the component produces the sidebar is that of the
  whole top-level sequence and the child list that of the children of the first node
  whose path equals the current path.
\<close>

theorem order_preserved:
  "length (TOCList_each s) = length (categories s) \<and>
   (\<forall>k<length (categories s).
      href (TOCList_each s ! k) = path (categories s ! k) \<and>
      label (TOCList_each s ! k) = title (categories s ! k)) \<and>
   length (ul_each nodes) = length nodes \<and>
   (\<forall>k<length nodes.
      li_href (ul_each nodes ! k) = path (nodes ! k) \<and>
      li_label (ul_each nodes ! k) = title (nodes ! k)) \<and>
   (\<forall>r. fst (RecipeCategory t s) = Inr r \<longrightarrow>
      TOCList r = TOCList_each s \<and>
      (\<exists>i<length (categories s).
         path (categories s ! i) = page_url_pathname s \<and>
         (\<forall>j<i. path (categories s ! j) \<noteq> page_url_pathname s) \<and>
         ul r = ul_each (case children (categories s ! i) of
                           JS_Array kids \<Rightarrow> kids | Falsy _ \<Rightarrow> [])))"
proof -
  have toc: "\<forall>k<length (categories s).
      href (TOCList_each s ! k) = path (categories s ! k) \<and>
      label (TOCList_each s ! k) = title (categories s ! k)"
    by (simp add: TOCList_each_nth)
  have kids: "\<forall>k<length nodes.
      li_href (ul_each nodes ! k) = path (nodes ! k) \<and>
      li_label (ul_each nodes ! k) = title (nodes ! k)"
    by (simp add: ul_each_nth)
  have comp: "TOCList r = TOCList_each s \<and>
      (\<exists>i<length (categories s).
         path (categories s ! i) = page_url_pathname s \<and>
         (\<forall>j<i. path (categories s ! j) \<noteq> page_url_pathname s) \<and>
         ul r = ul_each (case children (categories s ! i) of
                           JS_Array kids \<Rightarrow> kids | Falsy _ \<Rightarrow> []))"
    if r: "fst (RecipeCategory t s) = Inr r" for r
  proof -
    from r obtain ns where ns: "childrenNodes s = Inr ns"
      and r_eq: "r = \<lparr>seo_title = t, TOCList = TOCList_each s, h1 = t, ul = ul_each ns\<rparr>"
      unfolding RecipeCategory_Inr by blast
    from ns have "childrenNodes s \<noteq> Inl TypeError" by simp
    then have "\<exists>n \<in> set (categories s). path n = page_url_pathname s"
      unfolding childrenNodes_no_match by blast
    from first_match_exists [OF this] obtain i where i: "i < length (categories s)"
      "path (categories s ! i) = page_url_pathname s"
      "\<forall>j<i. path (categories s ! j) \<noteq> page_url_pathname s"
      by blast
    then have "childrenNodes s = Inr (or_empty (children (categories s ! i)))"
      by (rule childrenNodes_first)
    with ns have "ns = (case children (categories s ! i) of
                           JS_Array kids \<Rightarrow> kids | Falsy _ \<Rightarrow> [])"
      by (simp add: or_empty_def split: js_array_field.splits)
    with r_eq i show ?thesis by auto
  qed
  from toc kids comp show ?thesis
    by (simp add: TOCList_each_length ul_each_length)
qed

theorem order_preserved_witness:
  "(1::nat) < length scenario_tree \<and>
   href (TOCList_each \<lparr>categories = scenario_tree, page_url_pathname = ''/a''\<rparr> ! 1) = ''/b'' \<and>
   label (TOCList_each \<lparr>categories = scenario_tree, page_url_pathname = ''/a''\<rparr> ! 1) = ''B'' \<and>
   (0::nat) < length (or_empty (children (scenario_tree ! 0))) \<and>
   li_href (ul_each (or_empty (children (scenario_tree ! 0))) ! 0) = ''/a/x'' \<and>
   li_label (ul_each (or_empty (children (scenario_tree ! 0))) ! 0) = ''X'' \<and>
   (\<exists>r. fst (RecipeCategory ''T'' \<lparr>categories = scenario_tree, page_url_pathname = ''/a''\<rparr>)
          = Inr r \<and>
        TOCList r = TOCList_each \<lparr>categories = scenario_tree, page_url_pathname = ''/a''\<rparr> \<and>
        ul r = ul_each (or_empty (children (scenario_tree ! 0))))"
  using order_preserved
    [of "\<lparr>categories = scenario_tree, page_url_pathname = ''/a''\<rparr>"
        "or_empty (children (scenario_tree ! 0))" "''T''"]
  by (simp add: RecipeCategory_def childrenNodes_def TOCList_each_def ul_each_def
      or_empty_def scenario_tree_def)

text \<open>
  Claim C5. For the two-node tree of the specification and the current path
  \<^verbatim>\<open>/a\<close>, the component renders the sidebar \<open>[A active, B not active]\<close> and the
  child list \<open>[X]\<close>; the stores are as they were.
\<close>

theorem scenario_a_renders:
  "RecipeCategory t \<lparr>categories = scenario_tree, page_url_pathname = ''/a''\<rparr> =
     (Inr \<lparr>seo_title = t,
           TOCList = [\<lparr>active = True, icon_name = None, href = ''/a'', label = ''A''\<rparr>,
                      \<lparr>active = False, icon_name = None, href = ''/b'', label = ''B''\<rparr>],
           h1 = t,
           ul = [\<lparr>li_href = ''/a/x'', li_label = ''X''\<rparr>]\<rparr>,
      \<lparr>categories = scenario_tree, page_url_pathname = ''/a''\<rparr>)"
  by (simp add: RecipeCategory_def childrenNodes_def TOCList_each_def ul_each_def
      or_empty_def scenario_tree_def)

text \<open>
  Claim C6. The claim is that at the current path \<^verbatim>\<open>/a/x\<close> the sidebar is
  \<open>[A active, B not active]\<close> and the child list is empty. The sidebar's each-block
  would give these flags, but the instance script raises a TypeError before anything
  is rendered, since no top-level node has the path \<^verbatim>\<open>/a/x\<close>.
\<close>

theorem scenario_a_x_raises:
  "fst (RecipeCategory t \<lparr>categories = scenario_tree, page_url_pathname = ''/a/x''\<rparr>)
     = Inl TypeError \<and>
   map active (TOCList_each \<lparr>categories = scenario_tree, page_url_pathname = ''/a/x''\<rparr>)
     = [True, False]"
  by (simp add: RecipeCategory_def childrenNodes_def TOCList_each_def scenario_tree_def)




text \<open>
  Claim C9. When the first top-level node whose path equals the current path has a
  falsy \<^verbatim>\<open>children\<close> (missing, \<^verbatim>\<open>undefined\<close>, \<^verbatim>\<open>null\<close>, ...), the
  \<^verbatim>\<open>|| []\<close> fallback makes \<^verbatim>\<open>childrenNodes\<close> the empty list: the component
  renders, with an empty child list, and raises no error.
\<close>

theorem falsy_children_empty_list:
  assumes "i < length (categories s)"
    and "path (categories s ! i) = page_url_pathname s"
    and "\<forall>j<i. path (categories s ! j) \<noteq> page_url_pathname s"
    and "children (categories s ! i) = Falsy f"
  shows "childrenNodes s = Inr [] \<and>
         (\<exists>r. fst (RecipeCategory t s) = Inr r \<and> ul r = [])"
proof -
  from assms(1-3) have "childrenNodes s = Inr (or_empty (children (categories s ! i)))"
    by (rule childrenNodes_first)
  with assms(4) have "childrenNodes s = Inr []"
    by (simp add: or_empty_def)
  then show ?thesis
    by (simp add: RecipeCategory_def ul_each_def)
qed

theorem falsy_children_empty_list_witness:
  "(1::nat) < length edge_case_tree \<and>
   path (edge_case_tree ! 1) = ''/b'' \<and>
   path (edge_case_tree ! 0) \<noteq> ''/b'' \<and>
   children (edge_case_tree ! 1) = Falsy JS_null \<and>
   childrenNodes \<lparr>categories = edge_case_tree, page_url_pathname = ''/b''\<rparr> = Inr [] \<and>
   (\<exists>r. fst (RecipeCategory ''T'' \<lparr>categories = edge_case_tree, page_url_pathname = ''/b''\<rparr>)
          = Inr r \<and> ul r = [])"
proof -
  have h1: "1 < length (categories \<lparr>categories = edge_case_tree, page_url_pathname = ''/b''\<rparr>)"
    by (simp add: edge_case_tree_def)
  have h2: "path (categories \<lparr>categories = edge_case_tree, page_url_pathname = ''/b''\<rparr> ! 1) =
      page_url_pathname \<lparr>categories = edge_case_tree, page_url_pathname = ''/b''\<rparr>"
    by (simp add: edge_case_tree_def)
  have h3: "\<forall>j<1. path (categories \<lparr>categories = edge_case_tree, page_url_pathname = ''/b''\<rparr> ! j)
      \<noteq> page_url_pathname \<lparr>categories = edge_case_tree, page_url_pathname = ''/b''\<rparr>"
    by (simp add: edge_case_tree_def)
  have h4: "children (categories \<lparr>categories = edge_case_tree, page_url_pathname = ''/b''\<rparr> ! 1)
      = Falsy JS_null"
    by (simp add: edge_case_tree_def)
  from falsy_children_empty_list [OF h1 h2 h3 h4, of "''T''"] h1 h2 h3 h4
  show ?thesis by simp
qed



end
